theory Spec2Isabelle
  imports Complex_Main
begin

section \<open>JavaScript values used by the analytics code\<close>

text \<open>
  Numbers are modelled as exact reals: the arithmetic of the source is carried out without
  the rounding of IEEE doubles, and the values NaN and Infinity do not exist.  An absent
  property (\<open>undefined\<close> or \<open>null\<close>) is \<open>None\<close>.  A thrown exception is a value of
  \<open>js_error\<close>; every \<open>try/catch\<close> of the source is a case distinction on it.
\<close>

datatype js_error = Error string | TypeError string

text \<open>Truthiness of an optional number and of an optional string (\<open>!x\<close> is its negation).\<close>

definition truthy_num :: "real option \<Rightarrow> bool" where
  "truthy_num v = (case v of None \<Rightarrow> False | Some x \<Rightarrow> x \<noteq> 0)"

definition truthy_str :: "string option \<Rightarrow> bool" where
  "truthy_str v = (case v of None \<Rightarrow> False | Some s \<Rightarrow> s \<noteq> [])"

text \<open>\<open>String.prototype.toLowerCase\<close> on the ASCII letters.\<close>

definition lower_char :: "char \<Rightarrow> char" where
  \<comment> \<open>the codes 65 to 90 are the capital letters; adding 32 sets bit 5\<close>
  "lower_char c =
     (let n = (of_char c :: nat)
      in if 65 \<le> n \<and> n \<le> 90
         then Char (digit0 c) (digit1 c) (digit2 c) (digit3 c) (digit4 c) True (digit6 c) (digit7 c)
         else c)"

definition toLowerCase :: "string \<Rightarrow> string" where
  "toLowerCase s = map lower_char s"

text \<open>\<open>Math.round\<close>: the nearest integer, a tie going up, as a number.\<close>

definition Math_round :: "real \<Rightarrow> real" where
  "Math_round x = of_int \<lfloor>x + 1 / 2\<rfloor>"

section \<open>Energy model\<close>

text \<open>
  A person as the functions below read it; the numeric properties hold numbers.
\<close>

record person =
  gender :: "string option"
  weight :: "real option"
  height :: "real option"
  age :: "real option"
  weightUnit :: "string option"
  heightUnit :: "string option"
  activityLevel :: "string option"

text \<open>
  The body of the \<open>try\<close> block of \<open>calculateBMR\<close>.  The argument is \<open>None\<close> when the
  caller passes \<open>null\<close> or \<open>undefined\<close>.
\<close>

definition calculateBMR_try :: "person option \<Rightarrow> js_error + real" where
  "calculateBMR_try p =
     (case p of
        None \<Rightarrow> Inl (Error ''Missing required person data for BMR calculation'')
      | Some person \<Rightarrow>
          if \<not> truthy_str (gender person) \<or> \<not> truthy_num (weight person)
             \<or> \<not> truthy_num (height person) \<or> \<not> truthy_num (age person)
          then Inl (Error ''Missing required person data for BMR calculation'')
          else
            (case (gender person, weight person, height person, age person) of
               (Some g, Some pw, Some ph, Some a) \<Rightarrow>
                 let w = (if weightUnit person = Some ''lb'' then pw * 0.453592 else pw);
                     h = (if heightUnit person = Some ''in'' then ph * 2.54 else ph);
                     bmr = (if toLowerCase g = ''male''
                            then 88.362 + (13.397 * w) + (4.799 * h) - (5.677 * a)
                            else 447.593 + (9.247 * w) + (3.098 * h) - (4.330 * a))
                 in Inr (Math_round bmr)
             | _ \<Rightarrow> Inl (Error ''Missing required person data for BMR calculation'')))"

text \<open>\<open>calculateBMR\<close>: the \<open>catch\<close> block reports the error and returns 0.\<close>

definition calculateBMR :: "person option \<Rightarrow> real" where
  "calculateBMR p = (case calculateBMR_try p of Inl e \<Rightarrow> 0 | Inr bmr \<Rightarrow> bmr)"

text \<open>
  The table \<open>ACTIVITY_MULTIPLIERS\<close>; a key outside the table reads \<open>undefined\<close>.
\<close>

definition ACTIVITY_MULTIPLIERS :: "string \<Rightarrow> real option" where
  "ACTIVITY_MULTIPLIERS k =
     (if k = ''SEDENTARY'' then Some 1.2
      else if k = ''LIGHT'' then Some 1.375
      else if k = ''MODERATE'' then Some 1.55
      else if k = ''ACTIVE'' then Some 1.725
      else if k = ''VERY_ACTIVE'' then Some 1.9
      else None)"

text \<open>
  \<open>calculateTDEE\<close>: \<open>ACTIVITY_MULTIPLIERS[activityLevel] || ACTIVITY_MULTIPLIERS.MODERATE\<close>,
  then \<open>Math.round(bmr * multiplier)\<close>.  Nothing in the body throws.
\<close>

definition calculateTDEE :: "real \<Rightarrow> string option \<Rightarrow> real" where
  "calculateTDEE bmr level =
     (let multiplier =
            (case (case level of None \<Rightarrow> None | Some k \<Rightarrow> ACTIVITY_MULTIPLIERS k) of
               Some m \<Rightarrow> m
             | None \<Rightarrow> 1.55)
      in Math_round (bmr * multiplier))"

text \<open>
  \<open>calculateDailyCalorieNeeds\<close>: the only expression of the \<open>try\<close> block that can throw
  is \<open>person.activityLevel\<close> on a \<open>null\<close> person, since \<open>calculateBMR\<close> catches its own
  error; the \<open>catch\<close> block returns 2000.
\<close>

definition calculateDailyCalorieNeeds_try :: "person option \<Rightarrow> js_error + real" where
  "calculateDailyCalorieNeeds_try p =
     (let bmr = calculateBMR p
      in case p of
           None \<Rightarrow> Inl (TypeError ''Cannot read properties of null (reading activityLevel)'')
         | Some person \<Rightarrow> Inr (calculateTDEE bmr (activityLevel person)))"

definition calculateDailyCalorieNeeds :: "person option \<Rightarrow> real" where
  "calculateDailyCalorieNeeds p =
     (case calculateDailyCalorieNeeds_try p of Inl e \<Rightarrow> 2000 | Inr needs \<Rightarrow> needs)"




text \<open>The first default family member of the application.\<close>

definition selman :: person where
  "selman = \<lparr> gender = Some ''male'', weight = Some 75, height = Some 180, age = Some 32,
     weightUnit = Some ''kg'', heightUnit = Some ''cm'', activityLevel = Some ''MODERATE'' \<rparr>"


section \<open>Nutrient aggregator\<close>

text \<open>
  The eleven keys of a totals object, in the order the source initialises them.
\<close>

datatype nutrient =
  Calories | Protein | Carbs | Fat | Fiber | Sodium | Calcium | Iron | VitaminA | VitaminC | Cost

text \<open>
  The local accumulator \<open>totals\<close> has all eleven keys from its initialiser on, so it is a
  total function; an object handed back to a caller is a map, which can lack keys.
\<close>

type_synonym totals = "nutrient \<Rightarrow> real"
type_synonym nutrition = "nutrient \<rightharpoonup> real"

text \<open>
  A food id is a whole number (the sample foods) or a string (\<open>Date.now().toString()\<close>, the
  value of a form field).  \<open>toString\<close> prints a number in decimal.
\<close>

datatype js_id = IdNum int | IdStr string

definition digit_char :: "nat \<Rightarrow> char" where
  "digit_char d = ''0123456789'' ! d"

function string_of_nat :: "nat \<Rightarrow> string" where
  "string_of_nat n =
     (if n < 10 then [digit_char n] else string_of_nat (n div 10) @ [digit_char (n mod 10)])"
  by pat_completeness auto
termination
  by (relation "measure id") auto

definition string_of_int :: "int \<Rightarrow> string" where
  "string_of_int i = (if i < 0 then CHR ''-'' # string_of_nat (nat (- i)) else string_of_nat (nat i))"

fun toString :: "js_id \<Rightarrow> string" where
  "toString (IdNum n) = string_of_int n"
| "toString (IdStr s) = s"

record food =
  food_id :: "js_id option"
  calories :: real
  protein :: real
  carbs :: real
  fat :: real
  fiber :: "real option"
  sodium :: "real option"
  calcium :: "real option"
  iron :: "real option"
  vitaminA :: "real option"
  vitaminC :: "real option"
  costPerServing :: "real option"

text \<open>
  A meal entry.  \<open>servings\<close> holds what \<open>parseFloat(item.servings)\<close> reads: \<open>None\<close> when it
  reads NaN (the property is absent or does not start with a number).
\<close>

record entry =
  foodId :: "js_id option"
  servings :: "real option"

text \<open>
  \<open>foodDatabase.find(f => f.id.toString() === item.foodId.toString())\<close>: the callback runs
  on the foods in order up to the first match, and throws a \<open>TypeError\<close> when either id is
  absent.
\<close>

fun find_food :: "food list \<Rightarrow> js_id option \<Rightarrow> js_error + food option" where
  "find_food [] fid = Inr None"
| "find_food (f # fs) fid =
     (case food_id f of
        None \<Rightarrow> Inl (TypeError ''Cannot read properties of undefined (reading toString)'')
      | Some i \<Rightarrow>
          (case fid of
             None \<Rightarrow> Inl (TypeError ''Cannot read properties of undefined (reading toString)'')
           | Some j \<Rightarrow> if toString i = toString j then Inr (Some f) else find_food fs fid))"

text \<open>\<open>parseFloat(item.servings) || 1\<close>: NaN and 0 are falsy.\<close>

definition resolve_servings :: "real option \<Rightarrow> real" where
  "resolve_servings s = (case s of None \<Rightarrow> 1 | Some x \<Rightarrow> if x = 0 then 1 else x)"

text \<open>\<open>if (food.k) totals.k += (food.k * servings)\<close> for an optional field.\<close>

definition add_optional :: "nutrient \<Rightarrow> real option \<Rightarrow> real \<Rightarrow> totals \<Rightarrow> totals" where
  "add_optional k v n t =
     (case v of None \<Rightarrow> t | Some x \<Rightarrow> if x \<noteq> 0 then t(k := t k + (x * n)) else t)"

text \<open>The body of \<open>if (food) { ... }\<close> once \<open>servings\<close> is resolved.\<close>

definition add_food :: "food \<Rightarrow> real \<Rightarrow> totals \<Rightarrow> totals" where
  "add_food fd n t0 =
     (let t1 = t0(Calories := t0 Calories + (calories fd * n));
          t2 = t1(Protein := t1 Protein + (protein fd * n));
          t3 = t2(Carbs := t2 Carbs + (carbs fd * n));
          t4 = t3(Fat := t3 Fat + (fat fd * n));
          t5 = add_optional Fiber (fiber fd) n t4;
          t6 = add_optional Sodium (sodium fd) n t5;
          t7 = add_optional Calcium (calcium fd) n t6;
          t8 = add_optional Iron (iron fd) n t7;
          t9 = add_optional VitaminA (vitaminA fd) n t8;
          t10 = add_optional VitaminC (vitaminC fd) n t9
      in add_optional Cost (costPerServing fd) n t10)"

text \<open>\<open>mealItems.forEach(item => ...)\<close>, stopping at the first exception.\<close>

fun forEach_item :: "food list \<Rightarrow> entry list \<Rightarrow> totals \<Rightarrow> js_error + totals" where
  "forEach_item db [] t = Inr t"
| "forEach_item db (item # items) t =
     (case find_food db (foodId item) of
        Inl e \<Rightarrow> Inl e
      | Inr None \<Rightarrow> forEach_item db items t
      | Inr (Some fd) \<Rightarrow>
          forEach_item db items (add_food fd (resolve_servings (servings item)) t))"

definition zero_totals :: totals where
  "zero_totals = (\<lambda>k. 0)"

text \<open>\<open>Math.round(x * 10) / 10\<close>.\<close>

definition round1 :: "real \<Rightarrow> real" where
  "round1 x = Math_round (x * 10) / 10"

text \<open>
  The \<open>try\<close> block of \<open>calculateMealNutrition\<close>.  \<open>mealItems\<close> is \<open>None\<close> for a \<open>null\<close> or
  \<open>undefined\<close> argument; it and the empty array return the initial totals.
\<close>

definition calculateMealNutrition_try :: "entry list option \<Rightarrow> food list \<Rightarrow> js_error + nutrition" where
  "calculateMealNutrition_try mealItems foodDatabase =
     (case mealItems of
        None \<Rightarrow> Inr (\<lambda>k. Some (zero_totals k))
      | Some items \<Rightarrow>
          if items = [] then Inr (\<lambda>k. Some (zero_totals k))
          else (case forEach_item foodDatabase items zero_totals of
                  Inl e \<Rightarrow> Inl e
                | Inr t \<Rightarrow> Inr (\<lambda>k. Some (round1 (t k)))))"

text \<open>The object literal both \<open>catch\<close> blocks of the aggregator return.\<close>

definition catch_totals :: nutrition where
  "catch_totals = [Calories \<mapsto> 0, Protein \<mapsto> 0, Carbs \<mapsto> 0, Fat \<mapsto> 0, Fiber \<mapsto> 0, Cost \<mapsto> 0]"

definition calculateMealNutrition :: "entry list option \<Rightarrow> food list \<Rightarrow> nutrition" where
  "calculateMealNutrition mealItems foodDatabase =
     (case calculateMealNutrition_try mealItems foodDatabase of
        Inl e \<Rightarrow> catch_totals
      | Inr t \<Rightarrow> t)"

text \<open>
  A day's meals.  A slot is \<open>None\<close> when \<open>meals[mealType]\<close> is absent or not an array.
\<close>

record day_meals =
  breakfast :: "entry list option"
  lunch :: "entry list option"
  dinner :: "entry list option"
  snacks :: "entry list option"

text \<open>\<open>x || 0\<close> on a property that may be absent.\<close>

definition or_zero :: "real option \<Rightarrow> real" where
  "or_zero v = (case v of None \<Rightarrow> 0 | Some x \<Rightarrow> if x = 0 then 0 else x)"

text \<open>One round of \<open>mealTypes.forEach\<close> in \<open>calculateDailyNutrition\<close>.\<close>

definition add_meal :: "food list \<Rightarrow> entry list option \<Rightarrow> totals \<Rightarrow> totals" where
  "add_meal foodDatabase slot dailyTotals =
     (case slot of
        None \<Rightarrow> dailyTotals
      | Some items \<Rightarrow>
          let mealNutrition = calculateMealNutrition (Some items) foodDatabase
          in (\<lambda>key. dailyTotals key + or_zero (mealNutrition key)))"

definition calculateDailyNutrition_try :: "day_meals option \<Rightarrow> food list \<Rightarrow> js_error + nutrition" where
  "calculateDailyNutrition_try meals foodDatabase =
     (case meals of
        None \<Rightarrow> Inl (TypeError ''Cannot read properties of undefined (reading breakfast)'')
      | Some m \<Rightarrow>
          let dailyTotals =
                foldl (\<lambda>t slot. add_meal foodDatabase slot t) zero_totals
                  [breakfast m, lunch m, dinner m, snacks m]
          in Inr (\<lambda>k. Some (round1 (dailyTotals k))))"

definition calculateDailyNutrition :: "day_meals option \<Rightarrow> food list \<Rightarrow> nutrition" where
  "calculateDailyNutrition meals foodDatabase =
     (case calculateDailyNutrition_try meals foodDatabase of
        Inl e \<Rightarrow> catch_totals
      | Inr t \<Rightarrow> t)"

text \<open>The sample foods the data store starts with.\<close>

definition oatmeal :: food where
  "oatmeal = \<lparr> food_id = Some (IdNum 1), calories = 150, protein = 5, carbs = 27, fat = 3,
     fiber = None, sodium = None, calcium = None, iron = None, vitaminA = None,
     vitaminC = None, costPerServing = Some 0.35 \<rparr>"

definition chicken_breast :: food where
  "chicken_breast = \<lparr> food_id = Some (IdNum 2), calories = 165, protein = 31, carbs = 0,
     fat = 3.5, fiber = None, sodium = None, calcium = None, iron = None, vitaminA = None,
     vitaminC = None, costPerServing = Some 1.20 \<rparr>"

definition broccoli :: food where
  "broccoli = \<lparr> food_id = Some (IdNum 3), calories = 55, protein = 3.7, carbs = 11, fat = 0.6,
     fiber = None, sodium = None, calcium = None, iron = None, vitaminA = None,
     vitaminC = None, costPerServing = Some 0.60 \<rparr>"

definition sample_foods :: "food list" where
  "sample_foods = [oatmeal, chicken_breast, broccoli]"

text \<open>Entries on the sample foods, and a day made of them.\<close>

definition oatmeal_twice :: entry where
  "oatmeal_twice = \<lparr> foodId = Some (IdStr ''1''), servings = Some 2 \<rparr>"

definition chicken_once :: entry where
  "chicken_once = \<lparr> foodId = Some (IdNum 2), servings = None \<rparr>"

definition unknown_food :: entry where
  "unknown_food = \<lparr> foodId = Some (IdStr ''99''), servings = Some 3 \<rparr>"

definition no_food_id :: entry where
  "no_food_id = \<lparr> foodId = None, servings = Some 1 \<rparr>"

definition oatmeal_negative :: entry where
  "oatmeal_negative = \<lparr> foodId = Some (IdNum 1), servings = Some (- 2) \<rparr>"

definition sample_day :: day_meals where
  "sample_day = \<lparr> breakfast = Some [oatmeal_twice], lunch = None,
     dinner = Some [chicken_once, unknown_food], snacks = Some [] \<rparr>"

section \<open>Dates\<close>

text \<open>
  A \<open>Date\<close> is its time value, the milliseconds since 1970-01-01T00:00Z.  The local zone
  is a constant offset \<open>tz\<close> (local time minus UTC, in milliseconds), so a calendar day has
  86400000 ms; daylight-saving shifts are outside the model.  The clock reading of
  \<open>new Date()\<close> is an argument of every function that takes it.
\<close>

definition msPerDay :: int where
  "msPerDay = 86400000"

text \<open>
  The proleptic Gregorian calendar on day numbers (days since 1970-01-01), in eras of 400
  years that start on a 1 March: the day of the era, the year of the era, the day of the
  year counted from 1 March, and the month counted from March.
\<close>

definition era_of :: "int \<Rightarrow> int" where
  "era_of dn = (dn + 719468) div 146097"

definition doe_of :: "int \<Rightarrow> int" where
  "doe_of dn = (dn + 719468) mod 146097"

definition yoe_of :: "int \<Rightarrow> int" where
  "yoe_of doe = (doe - doe div 1460 + doe div 36524 - doe div 146096) div 365"

definition doy_of :: "int \<Rightarrow> int" where
  "doy_of doe = doe - (365 * yoe_of doe + yoe_of doe div 4 - yoe_of doe div 100)"

definition mp_of :: "int \<Rightarrow> int" where
  "mp_of doy = (5 * doy + 2) div 153"

text \<open>Month (1 to 12), day of the month and year of a day number.\<close>

definition civil_month :: "int \<Rightarrow> int" where
  "civil_month dn =
     (if mp_of (doy_of (doe_of dn)) < 10 then mp_of (doy_of (doe_of dn)) + 3
      else mp_of (doy_of (doe_of dn)) - 9)"

definition civil_day :: "int \<Rightarrow> int" where
  "civil_day dn = doy_of (doe_of dn) - (153 * mp_of (doy_of (doe_of dn)) + 2) div 5 + 1"

definition civil_year :: "int \<Rightarrow> int" where
  "civil_year dn =
     yoe_of (doe_of dn) + era_of dn * 400 + (if civil_month dn \<le> 2 then 1 else 0)"

text \<open>The day number of a year, a month (1 to 12) and a day of the month.\<close>

definition days_from_march :: "int \<Rightarrow> int \<Rightarrow> int" where
  "days_from_march y doy =
     (y div 400) * 146097 + ((y mod 400) * 365 + (y mod 400) div 4 - (y mod 400) div 100 + doy)
       - 719468"

definition days_from_civil :: "int \<Rightarrow> int \<Rightarrow> int \<Rightarrow> int" where
  "days_from_civil y m d =
     days_from_march (if m \<le> 2 then y - 1 else y)
       ((153 * (if m > 2 then m - 3 else m + 9) + 2) div 5 + d - 1)"

definition getFullYear :: "int \<Rightarrow> int \<Rightarrow> int" where
  "getFullYear tz t = civil_year ((t + tz) div msPerDay)"

definition getMonth :: "int \<Rightarrow> int \<Rightarrow> int" where
  "getMonth tz t = civil_month ((t + tz) div msPerDay) - 1"

definition getDate :: "int \<Rightarrow> int \<Rightarrow> int" where
  "getDate tz t = civil_day ((t + tz) div msPerDay)"

text \<open>
  \<open>new Date(year, monthIndex, day)\<close>: local midnight.  A year from 0 to 99 means 1900 +
  year; a month index outside 0 to 11 and a day outside the month carry over.
\<close>

definition full_year :: "int \<Rightarrow> int" where
  "full_year year = (if 0 \<le> year \<and> year \<le> 99 then 1900 + year else year)"

definition Date_local :: "int \<Rightarrow> int \<Rightarrow> int \<Rightarrow> int \<Rightarrow> int" where
  "Date_local tz year monthIndex day =
     (days_from_civil (full_year year + monthIndex div 12) (monthIndex mod 12 + 1) 1
        + (day - 1)) * msPerDay - tz"

text \<open>\<open>date.setDate(d)\<close>: the day of the month becomes \<open>d\<close>, the time of day stays.\<close>

definition setDate :: "int \<Rightarrow> int \<Rightarrow> int \<Rightarrow> int" where
  "setDate tz t d = t + (d - getDate tz t) * msPerDay"

definition padStart :: "nat \<Rightarrow> string \<Rightarrow> string" where
  "padStart n s = replicate (n - length s) CHR ''0'' @ s"

text \<open>\<open>date.toISOString().split('T')[0]\<close>: the UTC calendar date of the time value.\<close>

definition iso_year :: "int \<Rightarrow> string" where
  "iso_year y =
     (if 0 \<le> y \<and> y \<le> 9999 then padStart 4 (string_of_nat (nat y))
      else (if y < 0 then CHR ''-'' else CHR ''+'') # padStart 6 (string_of_nat (nat \<bar>y\<bar>)))"

definition iso_of_day :: "int \<Rightarrow> string" where
  "iso_of_day dn =
     iso_year (civil_year dn)
     @ ''-'' @ padStart 2 (string_of_nat (nat (civil_month dn)))
     @ ''-'' @ padStart 2 (string_of_nat (nat (civil_day dn)))"

definition utc_day :: "int \<Rightarrow> int" where
  "utc_day t = t div msPerDay"

definition toISODate :: "int \<Rightarrow> string" where
  "toISODate t = iso_of_day (utc_day t)"

section \<open>Data store\<close>

text \<open>
  The stored objects the report reads: the meals and the meal plans, keyed by
  \<open>date_memberId\<close>, and the food database.
\<close>

record store =
  MEALS :: "string \<rightharpoonup> day_meals"
  MEAL_PLANS :: "string \<rightharpoonup> day_meals"
  FOOD_DATABASE :: "food list"

definition empty_day :: day_meals where
  "empty_day = \<lparr> breakfast = Some [], lunch = Some [], dinner = Some [], snacks = Some [] \<rparr>"

definition getMeals :: "store \<Rightarrow> string \<Rightarrow> string \<Rightarrow> day_meals" where
  "getMeals st date familyMemberId =
     (case MEALS st (date @ ''_'' @ familyMemberId) of None \<Rightarrow> empty_day | Some m \<Rightarrow> m)"

definition getMealPlans :: "store \<Rightarrow> string \<Rightarrow> string \<Rightarrow> day_meals" where
  "getMealPlans st date familyMemberId =
     (case MEAL_PLANS st (date @ ''_'' @ familyMemberId) of None \<Rightarrow> empty_day | Some m \<Rightarrow> m)"

section \<open>Report generator\<close>

text \<open>The five metrics of a report and the totals key each one reads.\<close>

datatype metric = M_calories | M_protein | M_carbs | M_fat | M_cost

fun key_of :: "metric \<Rightarrow> nutrient" where
  "key_of M_calories = Calories"
| "key_of M_protein = Protein"
| "key_of M_carbs = Carbs"
| "key_of M_fat = Fat"
| "key_of M_cost = Cost"

record report =
  labels :: "string list"
  planned :: "metric \<Rightarrow> real list"
  consumed :: "metric \<Rightarrow> real list"

definition empty_report :: report where
  "empty_report = \<lparr> labels = [], planned = (\<lambda>m. []), consumed = (\<lambda>m. []) \<rparr>"

text \<open>
  Reading one of the five keys from a totals object.  Both shapes of the object carry these
  keys (lemma \<open>tracked_keys_present\<close>), so the \<open>None\<close> case is never taken.
\<close>

definition read_key :: "nutrition \<Rightarrow> metric \<Rightarrow> real" where
  "read_key n m = (case n (key_of m) of Some v \<Rightarrow> v | None \<Rightarrow> 0)"

record member =
  member_id :: string

text \<open>
  The dates of the report.  The start date is \<open>None\<close> when it is an invalid date: the copy
  made for a daily report is invalid too, the comparison \<open>date <= today\<close> is false for it
  and the day count of its month is NaN, so the weekly and monthly loops push nothing.  A
  report type outside the three cases leaves the array empty.
\<close>

definition report_dates :: "int \<Rightarrow> int \<Rightarrow> string \<Rightarrow> int option \<Rightarrow> int option list" where
  "report_dates tz today reportType startDate =
     (if reportType = ''daily'' then [startDate]
      else if reportType = ''weekly'' then
        (case startDate of
           None \<Rightarrow> []
         | Some startOfWeek \<Rightarrow>
             map Some (filter (\<lambda>date. date \<le> today)
               (map (\<lambda>i. setDate tz startOfWeek (getDate tz startOfWeek + int i)) [0..<7])))
      else if reportType = ''monthly'' then
        (case startDate of
           None \<Rightarrow> []
         | Some start \<Rightarrow>
             let startOfMonth = Date_local tz (getFullYear tz start) (getMonth tz start) 1;
                 endOfMonth = Date_local tz (getFullYear tz start) (getMonth tz start + 1) 0;
                 daysInMonth = getDate tz endOfMonth
             in map Some (filter (\<lambda>date. date \<le> today)
                  (map (\<lambda>i. setDate tz startOfMonth (getDate tz startOfMonth + int i))
                     [0..<nat daysInMonth])))
      else [])"

text \<open>
  The callback of \<open>dates.forEach\<close> after the label is computed: the sums over the family
  members for the selector \<open>all\<close>, the member's own totals otherwise.
\<close>

definition process_date :: "store \<Rightarrow> food list \<Rightarrow> string \<Rightarrow> member list \<Rightarrow> report \<Rightarrow> string \<Rightarrow> report" where
  "process_date st foodDb familyMemberId familyMembers rep dateString =
     (let rep1 = rep\<lparr> labels := labels rep @ [dateString] \<rparr>
      in if familyMemberId = ''all'' then
           let totalConsumed =
                 foldl (\<lambda>total mb. (\<lambda>m. total m
                          + read_key (calculateDailyNutrition
                                    (Some (getMeals st dateString (member_id mb))) foodDb) m))
                   (\<lambda>m. 0) familyMembers;
               totalPlanned =
                 foldl (\<lambda>total mb. (\<lambda>m. total m
                          + read_key (calculateDailyNutrition
                                    (Some (getMealPlans st dateString (member_id mb))) foodDb) m))
                   (\<lambda>m. 0) familyMembers
           in rep1\<lparr> consumed := (\<lambda>m. consumed rep1 m @ [totalConsumed m]),
                    planned := (\<lambda>m. planned rep1 m @ [totalPlanned m]) \<rparr>
         else
           let consumedNutrition =
                 calculateDailyNutrition (Some (getMeals st dateString familyMemberId)) foodDb;
               plannedNutrition =
                 calculateDailyNutrition (Some (getMealPlans st dateString familyMemberId)) foodDb
           in rep1\<lparr> consumed := (\<lambda>m. consumed rep1 m @ [read_key consumedNutrition m]),
                    planned := (\<lambda>m. planned rep1 m @ [read_key plannedNutrition m]) \<rparr>)"

text \<open>\<open>dates.forEach\<close>: \<open>toISOString\<close> throws a \<open>RangeError\<close> on an invalid date.\<close>

fun forEach_date :: "store \<Rightarrow> food list \<Rightarrow> string \<Rightarrow> member list \<Rightarrow> int option list \<Rightarrow> report
    \<Rightarrow> js_error + report" where
  "forEach_date st foodDb familyMemberId familyMembers [] rep = Inr rep"
| "forEach_date st foodDb familyMemberId familyMembers (date # dates) rep =
     (case date of
        None \<Rightarrow> Inl (Error ''RangeError: Invalid time value'')
      | Some t \<Rightarrow>
          forEach_date st foodDb familyMemberId familyMembers dates
            (process_date st foodDb familyMemberId familyMembers rep (toISODate t)))"

definition generateNutritionReport_try ::
    "store \<Rightarrow> int \<Rightarrow> int \<Rightarrow> string \<Rightarrow> string \<Rightarrow> int option \<Rightarrow> member list \<Rightarrow> js_error + report" where
  "generateNutritionReport_try st tz today reportType familyMemberId startDate familyMembers =
     forEach_date st (FOOD_DATABASE st) familyMemberId familyMembers
       (report_dates tz today reportType startDate) empty_report"

definition generateNutritionReport ::
    "store \<Rightarrow> int \<Rightarrow> int \<Rightarrow> string \<Rightarrow> string \<Rightarrow> int option \<Rightarrow> member list \<Rightarrow> report" where
  "generateNutritionReport st tz today reportType familyMemberId startDate familyMembers =
     (case generateNutritionReport_try st tz today reportType familyMemberId startDate
             familyMembers of
        Inl e \<Rightarrow> empty_report
      | Inr rep \<Rightarrow> rep)"

text \<open>
  A clock reading of 2026-11-02T12:00Z, the Sunday 2026-10-25T00:00Z of the week before, and
  a store with the sample foods and no meals.
\<close>

definition noon_2026_11_02 :: int where
  "noon_2026_11_02 = 1793620800000"


definition sunday_2026_11_01 :: int where
  "sunday_2026_11_01 = 1793491200000"

definition fresh_store :: store where
  "fresh_store = \<lparr> MEALS = Map.empty, MEAL_PLANS = Map.empty, FOOD_DATABASE = sample_foods \<rparr>"

text \<open>Two family members and a store with their meals of 2026-11-02.\<close>

definition member_1 :: member where
  "member_1 = \<lparr> member_id = ''1730000000001'' \<rparr>"

definition member_2 :: member where
  "member_2 = \<lparr> member_id = ''1730000000002'' \<rparr>"

definition family_store :: store where
  "family_store = \<lparr>
     MEALS = [''2026-11-02_1730000000001'' \<mapsto> sample_day,
              ''2026-11-02_1730000000002'' \<mapsto> empty_day \<lparr> lunch := Some [chicken_once] \<rparr>],
     MEAL_PLANS = [''2026-11-02_1730000000002'' \<mapsto> empty_day \<lparr> dinner := Some [oatmeal_twice] \<rparr>],
     FOOD_DATABASE = sample_foods \<rparr>"

section \<open>Budget projector\<close>

text \<open>\<open>str.split('-')\<close> and \<open>parts[i]\<close>, which is \<open>undefined\<close> past the end.\<close>

fun split_on :: "char \<Rightarrow> string \<Rightarrow> string list" where
  "split_on c [] = [[]]"
| "split_on c (x # xs) =
     (if x = c then [] # split_on c xs
      else (case split_on c xs of [] \<Rightarrow> [[x]] | p # ps \<Rightarrow> (x # p) # ps))"

definition nth_opt :: "'a list \<Rightarrow> nat \<Rightarrow> 'a option" where
  "nth_opt xs i = (if i < length xs then Some (xs ! i) else None)"

text \<open>
  \<open>parseInt\<close>: leading white space, a sign, the prefix \<open>0x\<close> for radix 16, then the longest
  run of digits; NaN, here \<open>None\<close>, when there is no digit.
\<close>

definition is_space :: "char \<Rightarrow> bool" where
  "is_space c = (let n = (of_char c :: nat) in n = 32 \<or> (9 \<le> n \<and> n \<le> 13))"

definition digit_of :: "nat \<Rightarrow> char \<Rightarrow> nat option" where
  "digit_of radix c =
     (let n = (of_char c :: nat);
          v = (if 48 \<le> n \<and> n \<le> 57 then Some (n - 48)
               else if 97 \<le> n \<and> n \<le> 102 then Some (n - 87)
               else if 65 \<le> n \<and> n \<le> 70 then Some (n - 55)
               else None)
      in case v of None \<Rightarrow> None | Some d \<Rightarrow> if d < radix then Some d else None)"

fun read_digits :: "nat \<Rightarrow> string \<Rightarrow> nat list" where
  "read_digits radix [] = []"
| "read_digits radix (c # cs) =
     (case digit_of radix c of None \<Rightarrow> [] | Some d \<Rightarrow> d # read_digits radix cs)"

definition parseInt :: "string option \<Rightarrow> int option" where
  "parseInt v =
     (case v of
        None \<Rightarrow> None
      | Some s \<Rightarrow>
          let s1 = dropWhile is_space s;
              neg = (take 1 s1 = ''-'');
              s2 = (if take 1 s1 = ''-'' \<or> take 1 s1 = ''+'' then drop 1 s1 else s1);
              hex = (take 2 s2 = ''0x'' \<or> take 2 s2 = ''0X'');
              radix = (if hex then 16 else 10);
              ds = read_digits radix (if hex then drop 2 s2 else s2)
          in if ds = [] then None
             else Some ((if neg then - 1 else 1) * int (foldl (\<lambda>a d. a * radix + d) 0 ds)))"

text \<open>
  The first lines of both projections:
  \<open>year = parseInt(currentMonth.split('-')[0])\<close>,
  \<open>month = parseInt(currentMonth.split('-')[1]) - 1\<close> and
  \<open>daysInMonth = new Date(year, month + 1, 0).getDate()\<close>, each NaN when a part does not
  parse.
\<close>

definition selected_year :: "string \<Rightarrow> int option" where
  "selected_year currentMonth = parseInt (nth_opt (split_on CHR ''-'' currentMonth) 0)"

definition selected_month :: "string \<Rightarrow> int option" where
  "selected_month currentMonth =
     map_option (\<lambda>m. m - 1) (parseInt (nth_opt (split_on CHR ''-'' currentMonth) 1))"

definition daysInMonth_of :: "int \<Rightarrow> int option \<Rightarrow> int option \<Rightarrow> int option" where
  "daysInMonth_of tz year month =
     (case (year, month) of
        (Some y, Some m) \<Rightarrow> Some (getDate tz (Date_local tz y (m + 1) 0))
      | _ \<Rightarrow> None)"

text \<open>
  A quotient of the source, \<open>None\<close> when it is not a finite number: the divisor is NaN or 0.
\<close>

definition js_divide :: "real \<Rightarrow> int option \<Rightarrow> real option" where
  "js_divide x d =
     (case d of None \<Rightarrow> None | Some n \<Rightarrow> if n = 0 then None else Some (x / of_int n))"

text \<open>The divisor \<open>daysPassed\<close> of \<open>calculateDailyAverage\<close>.\<close>

definition daysPassed_of :: "int \<Rightarrow> int \<Rightarrow> string \<Rightarrow> int option" where
  "daysPassed_of tz now currentMonth =
     (let year = selected_year currentMonth;
          month = selected_month currentMonth;
          daysInMonth = daysInMonth_of tz year month
      in if year = Some (getFullYear tz now) \<and> month = Some (getMonth tz now)
         then Some (getDate tz now)
         else daysInMonth)"

definition calculateDailyAverage :: "int \<Rightarrow> int \<Rightarrow> string \<Rightarrow> real \<Rightarrow> real option" where
  "calculateDailyAverage tz now currentMonth totalSpent =
     js_divide totalSpent (daysPassed_of tz now currentMonth)"

definition calculateEstimatedTotal :: "int \<Rightarrow> int \<Rightarrow> string \<Rightarrow> real \<Rightarrow> real option" where
  "calculateEstimatedTotal tz now currentMonth totalSpent =
     (let year = selected_year currentMonth;
          month = selected_month currentMonth;
          daysInMonth = daysInMonth_of tz year month
      in if year \<noteq> Some (getFullYear tz now) \<or> month \<noteq> Some (getMonth tz now)
         then Some totalSpent
         else
           let daysPassed = getDate tz now;
               dailyAverage = js_divide totalSpent (Some daysPassed)
           in (case (dailyAverage, daysInMonth) of
                 (Some a, Some n) \<Rightarrow> Some (totalSpent + (a * of_int (n - daysPassed)))
               | _ \<Rightarrow> None))"

section \<open>Notions of the specification\<close>







text \<open>
  The sum of the metric arrays of several reports that have one label each, entry by entry,
  starting from the zero array.
\<close>

definition add_series :: "real list \<Rightarrow> real list \<Rightarrow> real list" where
  "add_series xs ys = map (\<lambda>(x, y). x + y) (zip xs ys)"

definition sum_series :: "real list list \<Rightarrow> real list" where
  "sum_series rs = foldl add_series [0] rs"



section \<open>Properties of the energy model\<close>

lemma Math_round_0: "Math_round 0 = 0"
  by (simp add: Math_round_def)



lemma calculateBMR_missing_data:
  "\<not> truthy_str (gender p) \<or> \<not> truthy_num (weight p) \<or> \<not> truthy_num (height p)
     \<or> \<not> truthy_num (age p) \<Longrightarrow> calculateBMR (Some p) = 0"
  by (auto simp: calculateBMR_def calculateBMR_try_def)

lemma calculateTDEE_0: "calculateTDEE 0 level = 0"
  by (simp add: calculateTDEE_def Math_round_0)

lemma calculateDailyCalorieNeeds_missing_data:
  "\<not> truthy_str (gender p) \<or> \<not> truthy_num (weight p) \<or> \<not> truthy_num (height p)
     \<or> \<not> truthy_num (age p) \<Longrightarrow> calculateDailyCalorieNeeds (Some p) = 0"
  by (simp add: calculateDailyCalorieNeeds_def calculateDailyCalorieNeeds_try_def
      calculateBMR_missing_data calculateTDEE_0)

lemma calculateDailyCalorieNeeds_null: "calculateDailyCalorieNeeds None = 2000"
  by (simp add: calculateDailyCalorieNeeds_def calculateDailyCalorieNeeds_try_def)

text \<open>
  C1.  The claim: a person record in which gender, weight, height or age is absent gets the
  default of 2000 kcal from \<open>calculateDailyCalorieNeeds\<close>.  The code gives 0 for such a
  record: \<open>calculateBMR\<close> catches its own error and returns 0, \<open>calculateTDEE\<close> rounds
  0 times the multiplier to 0, and the \<open>catch\<close> block that returns 2000 is not entered.
  Here the first default family member without the gender.
\<close>

theorem calculateDailyCalorieNeeds_missing_gender:
  "calculateDailyCalorieNeeds (Some (selman\<lparr> gender := None \<rparr>)) = 0"
  by (simp add: calculateDailyCalorieNeeds_def calculateDailyCalorieNeeds_try_def
      calculateBMR_def calculateBMR_try_def calculateTDEE_def truthy_str_def selman_def
      Math_round_def)




section \<open>Properties of the nutrient aggregator\<close>

lemma round1_0: "round1 0 = 0"
  by (simp add: round1_def Math_round_def)






lemma forEach_item_skip:
  "find_food db (foodId u) = Inr None \<Longrightarrow>
   forEach_item db (xs @ u # ys) t = forEach_item db (xs @ ys) t"
  by (induction xs arbitrary: t) (simp_all split: sum.splits option.splits)

lemma calculateMealNutrition_try_items:
  "items \<noteq> [] \<Longrightarrow>
   calculateMealNutrition_try (Some items) db =
     (case forEach_item db items zero_totals of
        Inl e \<Rightarrow> Inl e
      | Inr t \<Rightarrow> Inr (\<lambda>k. Some (round1 (t k))))"
  by (simp add: calculateMealNutrition_try_def)









lemmas aggregator_eval =
  calculateMealNutrition_def calculateMealNutrition_try_def sample_foods_def oatmeal_def
  chicken_breast_def broccoli_def string_of_int_def digit_char_def add_food_def
  add_optional_def resolve_servings_def zero_totals_def round1_def Math_round_def
  catch_totals_def

lemmas entries_eval = oatmeal_twice_def chicken_once_def unknown_food_def no_food_id_def
  oatmeal_negative_def sample_day_def

lemma calculateMealNutrition_try_full:
  "calculateMealNutrition_try mealItems db = Inr n \<Longrightarrow> dom n = UNIV"
  by (auto simp: calculateMealNutrition_try_def split: option.splits if_splits sum.splits)

lemma dom_catch_totals: "dom catch_totals = {Calories, Protein, Carbs, Fat, Fiber, Cost}"
  by (auto simp: catch_totals_def)

text \<open>
  C3.  The claim: on internal failure \<open>calculateMealNutrition\<close> and
  \<open>calculateDailyNutrition\<close> return totals with every nutrient field and the cost, never
  a partly filled object.  The object their \<open>catch\<close> blocks return has six of the eleven
  keys the \<open>try\<close> blocks initialise: sodium, calcium, iron, vitamin A and vitamin C are
  missing.  Here an entry without a food id, and a day that is \<open>undefined\<close>.
\<close>

theorem catch_totals_lack_keys:
  "dom (calculateMealNutrition (Some [no_food_id]) sample_foods)
     = {Calories, Protein, Carbs, Fat, Fiber, Cost}
   \<and> calculateMealNutrition (Some [no_food_id]) sample_foods Sodium = None
   \<and> dom (calculateDailyNutrition None sample_foods)
     = {Calories, Protein, Carbs, Fat, Fiber, Cost}"
  by (simp add: calculateMealNutrition_def calculateMealNutrition_try_def sample_foods_def
        oatmeal_def no_food_id_def calculateDailyNutrition_def calculateDailyNutrition_try_def
        dom_catch_totals) (simp add: catch_totals_def)



lemmas day_eval = calculateDailyNutrition_def calculateDailyNutrition_try_def add_meal_def
  or_zero_def


text \<open>
  C5.  An entry whose food id matches no catalog item under the comparison of the ids as
  strings is skipped: the totals of a list with such an entry anywhere in it are the totals
  of the list without it.
\<close>

theorem unknown_food_skipped:
  assumes "find_food db (foodId u) = Inr None"
  shows "calculateMealNutrition (Some (xs @ u # ys)) db
       = calculateMealNutrition (Some (xs @ ys)) db"
proof (cases "xs @ ys = []")
  case True
  then show ?thesis using assms
    by (simp add: calculateMealNutrition_def calculateMealNutrition_try_def zero_totals_def
        round1_0)
next
  case False
  have "calculateMealNutrition_try (Some (xs @ u # ys)) db =
        (case forEach_item db (xs @ u # ys) zero_totals of
           Inl e \<Rightarrow> Inl e
         | Inr t \<Rightarrow> Inr (\<lambda>k. Some (round1 (t k))))"
    by (rule calculateMealNutrition_try_items) simp
  also have "\<dots> = calculateMealNutrition_try (Some (xs @ ys)) db"
    by (simp only: calculateMealNutrition_try_items [OF False] forEach_item_skip [OF assms])
  finally show ?thesis
    by (simp add: calculateMealNutrition_def)
qed

theorem unknown_food_skipped_witness:
  "find_food sample_foods (foodId unknown_food) = Inr None
   \<and> calculateMealNutrition (Some [oatmeal_twice, unknown_food, chicken_once]) sample_foods
     = calculateMealNutrition (Some [oatmeal_twice, chicken_once]) sample_foods"
proof -
  have h: "find_food sample_foods (foodId unknown_food) = Inr None"
    by (simp add: sample_foods_def oatmeal_def chicken_breast_def broccoli_def unknown_food_def
        string_of_int_def digit_char_def)
  from unknown_food_skipped [OF h, of "[oatmeal_twice]" "[chicken_once]"] h
  show ?thesis by simp
qed



section \<open>Properties of the report generator\<close>

lemma tracked_keys_present: "calculateDailyNutrition meals db (key_of m) \<noteq> None"
  by (cases m)
    (auto simp: calculateDailyNutrition_def calculateDailyNutrition_try_def catch_totals_def
      split: option.splits)

lemma foldl_add_fun:
  "foldl (\<lambda>total mb. (\<lambda>m. total m + f mb m)) g ms =
     (\<lambda>m. g m + sum_list (map (\<lambda>mb. f mb m) ms))"
  by (induction ms arbitrary: g) (auto simp: add.assoc)

lemma labels_process_date:
  "labels (process_date st db sel ms rep ds) = labels rep @ [ds]"
  by (simp add: process_date_def Let_def)

lemma generate_daily:
  "generateNutritionReport st tz today ''daily'' sel (Some d) ms =
     process_date st (FOOD_DATABASE st) sel ms empty_report (toISODate d)"
  by (simp add: generateNutritionReport_def generateNutritionReport_try_def report_dates_def)

lemma consumed_daily_all:
  "consumed (generateNutritionReport st tz today ''daily'' ''all'' (Some d) ms) m =
     [\<Sum>mb\<leftarrow>ms. read_key (calculateDailyNutrition
          (Some (getMeals st (toISODate d) (member_id mb))) (FOOD_DATABASE st)) m]"
  by (simp add: generate_daily process_date_def Let_def foldl_add_fun empty_report_def)

lemma planned_daily_all:
  "planned (generateNutritionReport st tz today ''daily'' ''all'' (Some d) ms) m =
     [\<Sum>mb\<leftarrow>ms. read_key (calculateDailyNutrition
          (Some (getMealPlans st (toISODate d) (member_id mb))) (FOOD_DATABASE st)) m]"
  by (simp add: generate_daily process_date_def Let_def foldl_add_fun empty_report_def)

lemma sum_series_singletons:
  "foldl add_series [a] (map (\<lambda>mb. [f mb]) ms) = [a + sum_list (map f ms)]"
  by (induction ms arbitrary: a) (simp_all add: add_series_def add.assoc)

lemma sum_series_single_entries:
  "sum_series (map (\<lambda>mb. [f mb]) ms) = [sum_list (map f ms)]"
  by (simp add: sum_series_def sum_series_singletons)

lemma consumed_daily_single:
  "consumed (generateNutritionReport st tz today ''daily'' (member_id mb) (Some d) [mb]) m =
     [read_key (calculateDailyNutrition
          (Some (getMeals st (toISODate d) (member_id mb))) (FOOD_DATABASE st)) m]"
  by (simp add: generate_daily process_date_def Let_def empty_report_def)

lemma planned_daily_single:
  "planned (generateNutritionReport st tz today ''daily'' (member_id mb) (Some d) [mb]) m =
     [read_key (calculateDailyNutrition
          (Some (getMealPlans st (toISODate d) (member_id mb))) (FOOD_DATABASE st)) m]"
  by (simp add: generate_daily process_date_def Let_def empty_report_def)

text \<open>
  C7.  The daily report for the selector \<open>all\<close> has the one label of the date, and each of
  its planned and consumed entries is the sum, over the family members in order, of the entry
  of the daily report generated for that member alone with the same store and date.
\<close>

theorem daily_all_is_sum_of_members:
  "labels (generateNutritionReport st tz today ''daily'' ''all'' (Some d) ms) = [toISODate d]
   \<and> consumed (generateNutritionReport st tz today ''daily'' ''all'' (Some d) ms) m =
       sum_series (map (\<lambda>mb. consumed
           (generateNutritionReport st tz today ''daily'' (member_id mb) (Some d) [mb]) m) ms)
   \<and> planned (generateNutritionReport st tz today ''daily'' ''all'' (Some d) ms) m =
       sum_series (map (\<lambda>mb. planned
           (generateNutritionReport st tz today ''daily'' (member_id mb) (Some d) [mb]) m) ms)"
  by (simp add: consumed_daily_all planned_daily_all consumed_daily_single planned_daily_single
      sum_series_single_entries)
    (simp add: generate_daily labels_process_date empty_report_def)


lemma setDate_plus: "setDate tz t (getDate tz t + i) = t + i * msPerDay"
  by (simp add: setDate_def)

lemma utc_day_plus: "utc_day (t + i * msPerDay) = utc_day t + i"
  by (simp add: utc_day_def msPerDay_def)


lemma forEach_date_valid:
  "\<exists>rep'. forEach_date st db sel ms (map Some ts) rep = Inr rep'
      \<and> labels rep' = labels rep @ map toISODate ts"
proof (induction ts arbitrary: rep)
  case Nil
  then show ?case by simp
next
  case (Cons t ts)
  from Cons [of "process_date st db sel ms rep (toISODate t)"]
  show ?case by (simp add: labels_process_date)
qed

lemma labels_weekly:
  "labels (generateNutritionReport st tz today ''weekly'' sel (Some start) ms) =
     map (\<lambda>i. iso_of_day (utc_day start + int i))
       (filter (\<lambda>i. start + int i * msPerDay \<le> today) [0..<7])"
proof -
  let ?ts = "filter (\<lambda>date. date \<le> today) (map (\<lambda>i. start + int i * msPerDay) [0..<7])"
  have "report_dates tz today ''weekly'' (Some start) = map Some ?ts"
    by (simp add: report_dates_def setDate_plus)
  moreover obtain rep' where "forEach_date st (FOOD_DATABASE st) sel ms (map Some ?ts) empty_report = Inr rep'"
    and "labels rep' = labels empty_report @ map toISODate ?ts"
    using forEach_date_valid by blast
  ultimately have "labels (generateNutritionReport st tz today ''weekly'' sel (Some start) ms)
      = map toISODate ?ts"
    by (simp add: generateNutritionReport_def generateNutritionReport_try_def empty_report_def)
  also have "\<dots> = map (\<lambda>i. iso_of_day (utc_day start + int i))
       (filter (\<lambda>i. start + int i * msPerDay \<le> today) [0..<7])"
    by (simp add: filter_map comp_def toISODate_def utc_day_plus)
  finally show ?thesis .
qed


section \<open>Properties of the budget projector\<close>

lemma day_of_month_pos: "(153 * ((5 * x + 2) div 153) + 2) div 5 \<le> (x::int)"
proof -
  have "5 * x + 2 = 153 * ((5 * x + 2) div 153) + (5 * x + 2) mod 153" by simp
  moreover have "0 \<le> (5 * x + 2) mod 153" by simp
  ultimately have "153 * ((5 * x + 2) div 153) + 2 \<le> 5 * x + 4" by linarith
  then have "(153 * ((5 * x + 2) div 153) + 2) div 5 \<le> (5 * x + 4) div 5"
    by (rule zdiv_mono1) simp
  also have "(5 * x + 4) div 5 = x" by presburger
  finally show ?thesis .
qed

lemma civil_day_pos: "1 \<le> civil_day dn"
  using day_of_month_pos [of "doy_of (doe_of dn)"] by (simp add: civil_day_def mp_of_def)

lemma getDate_pos: "1 \<le> getDate tz t"
  by (simp add: getDate_def civil_day_pos)




text \<open>
  C9.  When the selected month is not the month of the clock reading,
  \<open>calculateEstimatedTotal\<close> returns the spend unchanged.  When it is, on day \<open>d\<close> of the
  month and with \<open>n\<close> the day count of the month, the result is the spend times \<open>n / d\<close>,
  which is the spend plus the daily average \<open>spend / d\<close> over the remaining \<open>n - d\<close> days.
\<close>

theorem estimated_total:
  "(selected_year cm \<noteq> Some (getFullYear tz now) \<or> selected_month cm \<noteq> Some (getMonth tz now)
      \<longrightarrow> calculateEstimatedTotal tz now cm spend = Some spend)
   \<and> (selected_year cm = Some (getFullYear tz now) \<and> selected_month cm = Some (getMonth tz now)
      \<longrightarrow> calculateEstimatedTotal tz now cm spend =
            Some (spend * (of_int (getDate tz (Date_local tz (getFullYear tz now)
                                     (getMonth tz now + 1) 0))
                           / of_int (getDate tz now)))
          \<and> calculateEstimatedTotal tz now cm spend =
            Some (spend + spend / of_int (getDate tz now)
                    * (of_int (getDate tz (Date_local tz (getFullYear tz now)
                                 (getMonth tz now + 1) 0))
                       - of_int (getDate tz now))))"
proof (intro conjI impI)
  assume "selected_year cm \<noteq> Some (getFullYear tz now)
    \<or> selected_month cm \<noteq> Some (getMonth tz now)"
  then show "calculateEstimatedTotal tz now cm spend = Some spend"
    by (auto simp: calculateEstimatedTotal_def Let_def)
next
  assume cur: "selected_year cm = Some (getFullYear tz now)
    \<and> selected_month cm = Some (getMonth tz now)"
  let ?n = "getDate tz (Date_local tz (getFullYear tz now) (getMonth tz now + 1) 0)"
  let ?d = "getDate tz now"
  have d: "(of_int ?d :: real) \<noteq> 0" using getDate_pos [of tz now] by simp
  have "?d \<noteq> 0" using getDate_pos [of tz now] by simp
  with cur have eq: "calculateEstimatedTotal tz now cm spend =
      Some (spend + spend / of_int ?d * of_int (?n - ?d))"
    by (simp add: calculateEstimatedTotal_def Let_def daysInMonth_of_def js_divide_def)
  then show "calculateEstimatedTotal tz now cm spend =
      Some (spend + spend / of_int ?d * (of_int ?n - of_int ?d))"
    by simp
  have "spend + spend / of_int ?d * of_int (?n - ?d) = spend * (of_int ?n / of_int ?d)"
    using d by (simp add: field_simps)
  with eq show "calculateEstimatedTotal tz now cm spend = Some (spend * (of_int ?n / of_int ?d))"
    by simp
qed


section \<open>The properties at concrete inputs\<close>

lemmas date_eval = era_of_def doe_of_def yoe_of_def doy_of_def mp_of_def civil_month_def
  civil_day_def civil_year_def days_from_march_def days_from_civil_def full_year_def
  getFullYear_def getMonth_def getDate_def Date_local_def msPerDay_def

lemmas iso_eval = iso_year_def iso_of_day_def utc_day_def padStart_def digit_char_def

lemma generateNutritionReport_invalid_date:
  "generateNutritionReport st tz today ''daily'' sel None ms = empty_report
   \<and> labels empty_report = [] \<and> planned empty_report m = [] \<and> consumed empty_report m = []"
  by (simp add: generateNutritionReport_def generateNutritionReport_try_def report_dates_def
      empty_report_def)

lemma iso_noon: "toISODate noon_2026_11_02 = ''2026-11-02''"
  by (simp add: toISODate_def date_eval iso_eval noon_2026_11_02_def)

lemmas store_eval = family_store_def member_1_def member_2_def getMeals_def getMealPlans_def
  empty_day_def read_key_def

lemma daily_report_example:
  "consumed (generateNutritionReport family_store 0 noon_2026_11_02 ''daily'' ''all''
      (Some noon_2026_11_02) [member_1, member_2]) M_calories = [630]"
  "consumed (generateNutritionReport family_store 0 noon_2026_11_02 ''daily'' ''1730000000001''
      (Some noon_2026_11_02) [member_1]) M_calories = [465]"
  "consumed (generateNutritionReport family_store 0 noon_2026_11_02 ''daily'' ''1730000000002''
      (Some noon_2026_11_02) [member_2]) M_calories = [165]"
  "planned (generateNutritionReport family_store 0 noon_2026_11_02 ''daily'' ''all''
      (Some noon_2026_11_02) [member_1, member_2]) M_cost = [0.7]"
  by (simp_all add: generate_daily iso_noon process_date_def empty_report_def store_eval
      day_eval aggregator_eval entries_eval)

lemma upt_7: "[0..<7] = [0, 1, 2, 3, 4, 5, 6]"
  by code_simp


lemma weekly_labels_truncated_example:
  "labels (generateNutritionReport fresh_store 0 noon_2026_11_02 ''weekly'' ''all''
         (Some sunday_2026_11_01) []) = [''2026-11-01'', ''2026-11-02'']"
proof -
  have "filter (\<lambda>i. sunday_2026_11_01 + int i * msPerDay \<le> noon_2026_11_02) [0..<7] = [0, 1]"
    by (simp only: upt_7) (simp add: sunday_2026_11_01_def noon_2026_11_02_def msPerDay_def)
  then have "labels (generateNutritionReport fresh_store 0 noon_2026_11_02 ''weekly'' ''all''
         (Some sunday_2026_11_01) []) =
      [iso_of_day (utc_day sunday_2026_11_01 + int 0), iso_of_day (utc_day sunday_2026_11_01 + int 1)]"
    by (simp only: labels_weekly list.map)
  also have "\<dots> = [''2026-11-01'', ''2026-11-02'']"
    by (simp add: date_eval iso_eval sunday_2026_11_01_def)
  finally show ?thesis .
qed

lemma clock_fields:
  "getFullYear 0 noon_2026_11_02 = 2026" "getMonth 0 noon_2026_11_02 = 10"
  "getDate 0 noon_2026_11_02 = 2"
  by (simp_all add: date_eval noon_2026_11_02_def)

lemmas parse_eval = selected_year_def selected_month_def nth_opt_def parseInt_def is_space_def
  digit_of_def Let_def

lemma selected_examples:
  "selected_year ''2026-10'' = Some 2026" "selected_month ''2026-10'' = Some 9"
  "selected_year ''2026-11'' = Some 2026" "selected_month ''2026-11'' = Some 10"
  by (simp_all add: parse_eval)

theorem estimated_total_witness:
  "selected_month ''2026-10'' = Some 9 \<and> getMonth 0 noon_2026_11_02 = 10
   \<and> calculateEstimatedTotal 0 noon_2026_11_02 ''2026-10'' 100 = Some 100
   \<and> selected_year ''2026-11'' = Some (getFullYear 0 noon_2026_11_02)
   \<and> selected_month ''2026-11'' = Some (getMonth 0 noon_2026_11_02)
   \<and> calculateEstimatedTotal 0 noon_2026_11_02 ''2026-11'' 100 = Some 1500"
proof -
  have past: "selected_year ''2026-10'' \<noteq> Some (getFullYear 0 noon_2026_11_02)
      \<or> selected_month ''2026-10'' \<noteq> Some (getMonth 0 noon_2026_11_02)"
    by (simp add: selected_examples clock_fields)
  have cur: "selected_year ''2026-11'' = Some (getFullYear 0 noon_2026_11_02)
      \<and> selected_month ''2026-11'' = Some (getMonth 0 noon_2026_11_02)"
    by (simp add: selected_examples clock_fields)
  have n: "getDate 0 (Date_local 0 2026 11 0) = 30"
    by (simp add: date_eval)
  from estimated_total [of "''2026-10''" 0 noon_2026_11_02 100] past
  have a: "calculateEstimatedTotal 0 noon_2026_11_02 ''2026-10'' 100 = Some 100" by blast
  from estimated_total [of "''2026-11''" 0 noon_2026_11_02 100] cur
  have "calculateEstimatedTotal 0 noon_2026_11_02 ''2026-11'' 100 =
      Some (100 * (of_int (getDate 0 (Date_local 0 (getFullYear 0 noon_2026_11_02)
                                     (getMonth 0 noon_2026_11_02 + 1) 0))
                           / of_int (getDate 0 noon_2026_11_02)))"
    by blast
  then have b: "calculateEstimatedTotal 0 noon_2026_11_02 ''2026-11'' 100 = Some 1500"
    by (simp add: clock_fields n)
  from a cur b show ?thesis by (simp add: selected_examples clock_fields)
qed


lemma calculateDailyAverage_examples:
  "calculateDailyAverage 0 noon_2026_11_02 ''2026-02'' 56 = Some 2"
  "calculateDailyAverage 0 noon_2026_11_02 ''2026-11'' 56 = Some 28"
  "calculateDailyAverage 0 noon_2026_11_02 ''2026'' 56 = None"
proof -
  have sel: "selected_year ''2026-02'' = Some 2026" "selected_month ''2026-02'' = Some 1"
    "selected_year ''2026'' = Some 2026" "selected_month ''2026'' = None"
    by (simp_all add: parse_eval)
  have feb: "getDate 0 (Date_local 0 2026 2 0) = 28"
    by (simp add: date_eval)
  show "calculateDailyAverage 0 noon_2026_11_02 ''2026-02'' 56 = Some 2"
    by (simp add: calculateDailyAverage_def daysPassed_of_def daysInMonth_of_def sel
        clock_fields feb js_divide_def)
  show "calculateDailyAverage 0 noon_2026_11_02 ''2026-11'' 56 = Some 28"
    by (simp add: calculateDailyAverage_def daysPassed_of_def daysInMonth_of_def
        selected_examples clock_fields js_divide_def)
  show "calculateDailyAverage 0 noon_2026_11_02 ''2026'' 56 = None"
    by (simp add: calculateDailyAverage_def daysPassed_of_def daysInMonth_of_def sel
        clock_fields js_divide_def)
qed

end
